theory Spec2Isabelle
  imports Complex_Main "HOL-Library.Multiset" "HOL-Library.Sublist"
begin

section \<open>JavaScript values used by the search agent\<close>

text \<open>
  A JavaScript number is modelled as a real or \<open>NaN\<close>. The agent only compares scores and
  takes the sign of their difference; on finite IEEE doubles both agree with the reals
  (a difference of two distinct doubles is never rounded to zero), so rounding is not
  observable here. The infinities are outside the model.
\<close>

datatype jsnum = NaN | Num real

text \<open>\<open>a > b\<close> on numbers: false as soon as one side is \<open>NaN\<close>.\<close>

fun js_gt :: "jsnum \<Rightarrow> jsnum \<Rightarrow> bool" where
  "js_gt (Num a) (Num b) = (b < a)"
| "js_gt _ _ = False"

text \<open>\<open>a - b\<close> on numbers.\<close>

fun js_sub :: "jsnum \<Rightarrow> jsnum \<Rightarrow> jsnum" where
  "js_sub (Num a) (Num b) = Num (a - b)"
| "js_sub _ _ = NaN"

text \<open>\<open>v || d\<close> for an optional number \<open>v\<close>: \<open>undefined\<close>, \<open>NaN\<close> and \<open>0\<close> are falsy.\<close>

fun js_or_num :: "jsnum option \<Rightarrow> jsnum \<Rightarrow> jsnum" where
  "js_or_num None d = d"
| "js_or_num (Some NaN) d = d"
| "js_or_num (Some (Num r)) d = (if r = 0 then d else Num r)"

text \<open>
  Errors are values: \<open>TypeError\<close> is what the engine throws on a property access or a call
  on \<open>undefined\<close> or on a value without that method; \<open>Failure\<close> is any exception or
  rejection raised by an external collaborator (HTTP client, libraries, models).
\<close>

datatype error = TypeError | Failure string

text \<open>\<open>xs[i]\<close>: reading past the end of an array yields \<open>undefined\<close> (\<open>None\<close>).\<close>

definition array_get :: "'a list \<Rightarrow> nat \<Rightarrow> 'a option" where
  "array_get xs i = (if i < length xs then Some (xs ! i) else None)"

text \<open>
  \<open>xs.slice(0, end)\<close>. An \<open>undefined\<close> end keeps everything; otherwise the end is
  truncated towards zero (\<open>NaN\<close> counts as 0), and a negative end counts from the back.
\<close>

definition js_trunc :: "real \<Rightarrow> int" where
  "js_trunc r = (if 0 \<le> r then \<lfloor>r\<rfloor> else \<lceil>r\<rceil>)"

fun slice0 :: "jsnum option \<Rightarrow> 'a list \<Rightarrow> 'a list" where
  "slice0 None xs = xs"
| "slice0 (Some NaN) xs = take 0 xs"
| "slice0 (Some (Num r)) xs =
     (let k = js_trunc r in
      if k < 0 then take (nat (max (int (length xs) + k) 0)) xs
      else take (nat (min k (int (length xs)))) xs)"

text \<open>
  \<open>xs.sort(cmp)\<close>. ECMAScript (2019 and later) requires the sort to be stable, and a
  comparator result of \<open>NaN\<close> is read as 0. The model is the stable insertion sort: an
  element moves behind exactly those elements the comparator puts strictly before it.
\<close>

fun sort_insert :: "('a \<Rightarrow> 'a \<Rightarrow> jsnum) \<Rightarrow> 'a \<Rightarrow> 'a list \<Rightarrow> 'a list" where
  "sort_insert cmp x [] = [x]"
| "sort_insert cmp x (y # ys) =
     (if js_gt (cmp x y) (Num 0) then y # sort_insert cmp x ys else x # y # ys)"

fun array_sort :: "('a \<Rightarrow> 'a \<Rightarrow> jsnum) \<Rightarrow> 'a list \<Rightarrow> 'a list" where
  "array_sort cmp [] = []"
| "array_sort cmp (x # xs) = sort_insert cmp x (array_sort cmp xs)"

section \<open>Configuration and construction\<close>

datatype similarity_measure = Cosine | Dot

text \<open>
  \<open>interface SearchConfig\<close>: every field is optional, \<open>None\<close> is \<open>undefined\<close>.
\<close>

record SearchConfig =
  similarityMeasure :: "similarity_measure option"
  rerankThreshold :: "jsnum option"
  maxResults :: "jsnum option"

text \<open>
  The constructor's argument, a \<open>Partial<SearchConfig>\<close>: a key may be absent (\<open>None\<close>)
  or present; a present key carries a value, which may itself be \<open>undefined\<close>.
\<close>

record PartialConfig =
  given_similarityMeasure :: "similarity_measure option option"
  given_rerankThreshold :: "jsnum option option"
  given_maxResults :: "jsnum option option"

definition defaultConfig :: SearchConfig where
  "defaultConfig =
     \<lparr>similarityMeasure = Some Cosine, rerankThreshold = Some (Num 0.3), maxResults = Some (Num 15)\<rparr>"

text \<open>One key of \<open>{ ...defaults, ...given }\<close>: a present key overrides, whatever its value.\<close>

definition spread_key :: "'a \<Rightarrow> 'a option \<Rightarrow> 'a" where
  "spread_key d g = (case g of None \<Rightarrow> d | Some v \<Rightarrow> v)"

record SearchAgent =
  config :: SearchConfig

definition new_SearchAgent :: "PartialConfig \<Rightarrow> SearchAgent" where
  "new_SearchAgent given =
     \<lparr>config =
        \<lparr>similarityMeasure = spread_key (similarityMeasure defaultConfig) (given_similarityMeasure given),
         rerankThreshold = spread_key (rerankThreshold defaultConfig) (given_rerankThreshold given),
         maxResults = spread_key (maxResults defaultConfig) (given_maxResults given)\<rparr>\<rparr>"

text \<open>The constructor's default argument \<open>{}\<close>.\<close>

definition empty_config :: PartialConfig where
  "empty_config =
     \<lparr>given_similarityMeasure = None, given_rerankThreshold = None, given_maxResults = None\<rparr>"

section \<open>External collaborators\<close>

text \<open>
  Strings are lists of 8-bit code units (the Latin-1 range of JavaScript's UTF-16 units).
  The npm packages, the HTTP client, the URL class, the embedding model and the language
  model are not part of the repository; they are parameters of the model. Each may throw
  or reject, so each returns a sum.
\<close>

type_synonym vec = "real list"

text \<open>One entry of the search endpoint's \<open>results\<close> array; \<open>result_url\<close> is its \<open>url\<close>.\<close>

record RawSearchResult =
  result_url :: string

text \<open>A JSON object body; \<open>results\<close> is \<open>None\<close> when the object has no such field.\<close>

record SearchBody =
  results :: "RawSearchResult list option"

text \<open>\<open>response.data\<close> of the HTTP client: \<open>null\<close>, a string, or a parsed JSON object.\<close>

datatype response_data = NullData | TextData string | JsonData SearchBody

text \<open>
  \<open>URL_href base params\<close> stands for \<open>new URL(base)\<close>, the \<open>searchParams.append\<close> calls
  with \<open>params\<close> in order, and \<open>toString()\<close>; it fails where the constructor throws.
  \<open>htmlToText\<close> is the library call with the source's options (link targets dropped),
  \<open>splitText\<close> the recursive character splitter with its defaults.
\<close>

record Env =
  SEARXNG_URL :: "string option"
  URL_href :: "string \<Rightarrow> (string \<times> string) list \<Rightarrow> error + string"
  axios_get :: "string \<Rightarrow> error + response_data"
  htmlToText :: "string \<Rightarrow> error + string"
  splitText :: "string \<Rightarrow> error + string list"
  cosineSimilarity :: "vec \<Rightarrow> vec \<Rightarrow> error + jsnum"
  computeDot :: "vec \<Rightarrow> vec \<Rightarrow> error + jsnum"

text \<open>
  The embedding model. Its two requests run concurrently; \<open>query_rejects_first\<close> says
  which rejection settles first when both requests reject.
\<close>

record Embeddings =
  embedQuery :: "string \<Rightarrow> error + vec"
  embedDocuments :: "string list \<Rightarrow> error + vec list"
  query_rejects_first :: bool

datatype role = System | User | Assistant

type_synonym message = "role \<times> string"

datatype llm_input = TextPrompt string | ChatPrompt "message list"

text \<open>The chat model followed by the string output parser.\<close>

record BaseChatModel =
  invoke :: "llm_input \<Rightarrow> error + string"

text \<open>What a run does to the outside world, in order.\<close>

datatype event =
    ConsoleError string error
  | EmbedQueryCall string
  | EmbedDocumentsCall "string list"
  | LlmCall llm_input

section \<open>Web search\<close>

text \<open>
  The \<open>try\<close> block of \<open>searchWeb\<close>. An unset environment variable is spliced into the
  template as \<open>undefined\<close>. Reading \<open>.results\<close> of \<open>null\<close> throws; of a string it is
  \<open>undefined\<close>.
\<close>

definition search_endpoint :: "Env \<Rightarrow> string" where
  "search_endpoint env =
     (case SEARXNG_URL env of None \<Rightarrow> ''undefined'' | Some base \<Rightarrow> base) @ ''/search''"

definition search_params :: "string \<Rightarrow> (string \<times> string) list" where
  "search_params query = [(''q'', query), (''format'', ''json''), (''language'', ''en'')]"

definition search_request :: "Env \<Rightarrow> string \<Rightarrow> error + RawSearchResult list option" where
  "search_request env query =
     (case URL_href env (search_endpoint env) (search_params query) of
        Inl err \<Rightarrow> Inl err
      | Inr href \<Rightarrow>
          (case axios_get env href of
             Inl err \<Rightarrow> Inl err
           | Inr NullData \<Rightarrow> Inl TypeError
           | Inr (TextData s) \<Rightarrow> Inr None
           | Inr (JsonData body) \<Rightarrow> Inr (results body)))"

definition searchWeb :: "Env \<Rightarrow> string \<Rightarrow> RawSearchResult list option \<times> event list" where
  "searchWeb env query =
     (case search_request env query of
        Inl err \<Rightarrow> (Some [], [ConsoleError ''Search error:'' err])
      | Inr r \<Rightarrow> (r, []))"

section \<open>Fetching pages\<close>

text \<open>
  The class \<open>\s\<close> and the line terminators, among 8-bit code units. The line terminators
  U+2028 and U+2029 and the wide spaces of \<open>\s\<close> are not 8-bit code units; a page that
  contains them is outside the model.
\<close>

definition is_space :: "char \<Rightarrow> bool" where
  "is_space c =
     (c \<in> set [CHR 0x09, CHR 0x0A, CHR 0x0B, CHR 0x0C, CHR 0x0D, CHR 0x20, CHR 0xA0])"

definition is_line_terminator :: "char \<Rightarrow> bool" where
  "is_line_terminator c = (c = CHR 0x0A \<or> c = CHR 0x0D)"

text \<open>\<open>.replace(/(\r\n|\n|\r)/gm, ' ')\<close>\<close>

fun replace_newlines :: "string \<Rightarrow> string" where
  "replace_newlines [] = []"
| "replace_newlines [c] = (if is_line_terminator c then '' '' else [c])"
| "replace_newlines (c # d # cs) =
     (if c = CHR 0x0D \<and> d = CHR 0x0A then CHR '' '' # replace_newlines cs
      else if is_line_terminator c then CHR '' '' # replace_newlines (d # cs)
      else c # replace_newlines (d # cs))"

text \<open>\<open>.replace(/\s+/g, ' ')\<close>\<close>

function collapse_spaces :: "string \<Rightarrow> string" where
  "collapse_spaces [] = []"
| "collapse_spaces (c # cs) =
     (if is_space c then CHR '' '' # collapse_spaces (dropWhile is_space cs)
      else c # collapse_spaces cs)"
  by pat_completeness auto
termination
  by (relation "measure length") (auto simp: length_dropWhile_le less_Suc_eq_le)

text \<open>\<open>.trim()\<close>\<close>

definition trim :: "string \<Rightarrow> string" where
  "trim s = rev (dropWhile is_space (rev (dropWhile is_space s)))"

definition normalize_text :: "string \<Rightarrow> string" where
  "normalize_text s = trim (collapse_spaces (replace_newlines s))"

text \<open>
  \<open>html.match(/<title.*>(.*?)<\/title>/)?.[1]\<close>, by the backtracking order of the
  engine. \<open>lazy_to_close\<close> matches \<open>(.*?)<\/title>\<close> at the head of its argument and returns the
  group: the shortest run free of line terminators that is followed by the closing tag.
  \<open>greedy_to_gt\<close> matches \<open>.*>(.*?)<\/title>\<close>: the longest run is tried first, one
  character is given back at a time. \<open>match_title\<close> tries the start positions from the left.
\<close>

fun lazy_to_close :: "string \<Rightarrow> string option" where
  "lazy_to_close [] = None"
| "lazy_to_close (c # cs) =
     (if prefix ''</title>'' (c # cs) then Some []
      else if is_line_terminator c then None
      else map_option ((#) c) (lazy_to_close cs))"

fun greedy_to_gt :: "string \<Rightarrow> string option" where
  "greedy_to_gt [] = None"
| "greedy_to_gt (c # cs) =
     (case (if is_line_terminator c then None else greedy_to_gt cs) of
        Some t \<Rightarrow> Some t
      | None \<Rightarrow> if c = CHR ''>'' then lazy_to_close cs else None)"

fun match_title :: "string \<Rightarrow> string option" where
  "match_title [] = None"
| "match_title (c # cs) =
     (case (if prefix ''<title'' (c # cs) then greedy_to_gt (drop 6 (c # cs)) else None) of
        Some t \<Rightarrow> Some t
      | None \<Rightarrow> match_title cs)"

text \<open>\<open>... || url\<close>: no match and an empty group both fall back to the URL.\<close>

definition page_title :: "string \<Rightarrow> string \<Rightarrow> string" where
  "page_title html u =
     (case match_title html of None \<Rightarrow> u | Some t \<Rightarrow> if t = [] then u else t)"

record Metadata =
  title :: string
  url :: string

record Document =
  pageContent :: string
  metadata :: Metadata

text \<open>
  The \<open>try\<close> block of one URL's task. A body that is not a string fails at the latest at
  \<open>.match\<close>; the model reports that as \<open>TypeError\<close>.
\<close>

definition process_url :: "Env \<Rightarrow> string \<Rightarrow> error + Document list" where
  "process_url env u =
     (case axios_get env u of
        Inl err \<Rightarrow> Inl err
      | Inr (TextData html) \<Rightarrow>
          (case htmlToText env html of
             Inl err \<Rightarrow> Inl err
           | Inr text \<Rightarrow>
               (case splitText env (normalize_text text) of
                  Inl err \<Rightarrow> Inl err
                | Inr chunks \<Rightarrow>
                    Inr (map (\<lambda>chunk. \<lparr>pageContent = chunk,
                                        metadata = \<lparr>title = page_title html u, url = u\<rparr>\<rparr>)
                           chunks)))
      | Inr _ \<Rightarrow> Inl TypeError)"

text \<open>One URL's task with its \<open>catch\<close>: the documents it pushes and what it logs.\<close>

definition url_task :: "Env \<Rightarrow> string \<Rightarrow> Document list \<times> event list" where
  "url_task env u =
     (case process_url env u of
        Inl err \<Rightarrow> ([], [ConsoleError (''Error processing '' @ u @ '':'') err])
      | Inr ds \<Rightarrow> (ds, []))"

text \<open>
  \<open>getDocumentsFromUrls\<close>. The tasks run concurrently and each pushes its documents in
  one step when it finishes; \<open>order\<close> lists the positions of \<open>urls\<close> in the order in
  which their tasks finish (a permutation of \<open>[0..<length urls]\<close>; other entries are
  ignored).
\<close>

definition getDocumentsFromUrls ::
  "Env \<Rightarrow> nat list \<Rightarrow> string list \<Rightarrow> Document list \<times> event list" where
  "getDocumentsFromUrls env order urls =
     (let finished = map (\<lambda>i. url_task env (urls ! i)) (filter (\<lambda>i. i < length urls) order)
      in (concat (map fst finished), concat (map snd finished)))"

section \<open>Reranking\<close>

record Sim =
  index :: nat
  similarity :: jsnum

definition computeSimilarity :: "Env \<Rightarrow> SearchAgent \<Rightarrow> vec \<Rightarrow> vec \<Rightarrow> error + jsnum" where
  "computeSimilarity env agent x y =
     (if similarityMeasure (config agent) = Some Cosine
      then cosineSimilarity env x y
      else computeDot env x y)"

text \<open>
  \<open>docEmbeddings.map((docEmbedding, i) => ({ index: i, similarity: ... }))\<close>, with the
  running index explicit. The first scoring that throws ends the map.
\<close>

fun similarities_from ::
  "Env \<Rightarrow> SearchAgent \<Rightarrow> vec \<Rightarrow> nat \<Rightarrow> vec list \<Rightarrow> error + Sim list" where
  "similarities_from env agent q i [] = Inr []"
| "similarities_from env agent q i (e # es) =
     (case computeSimilarity env agent q e of
        Inl err \<Rightarrow> Inl err
      | Inr s \<Rightarrow>
          (case similarities_from env agent q (Suc i) es of
             Inl err \<Rightarrow> Inl err
           | Inr sims \<Rightarrow> Inr (\<lparr>index = i, similarity = s\<rparr> # sims)))"

text \<open>The comparator \<open>(a, b) => b.similarity - a.similarity\<close>.\<close>

definition by_similarity_desc :: "Sim \<Rightarrow> Sim \<Rightarrow> jsnum" where
  "by_similarity_desc a b = js_sub (similarity b) (similarity a)"

text \<open>The \<open>filter\<close>, \<open>sort\<close> and \<open>slice\<close> of \<open>rerankDocs\<close>.\<close>

definition select_sims :: "SearchAgent \<Rightarrow> Sim list \<Rightarrow> Sim list" where
  "select_sims agent sims =
     slice0 (maxResults (config agent))
       (array_sort by_similarity_desc
         (filter (\<lambda>sim. js_gt (similarity sim) (js_or_num (rerankThreshold (config agent)) (Num 0.3)))
            sims))"

text \<open>
  \<open>Promise.all\<close> on two promises that have both been started: both results, or the
  rejection that settles first.
\<close>

definition promise_all2 :: "bool \<Rightarrow> error + 'a \<Rightarrow> error + 'b \<Rightarrow> error + ('a \<times> 'b)" where
  "promise_all2 first_rejects_first a b =
     (case (a, b) of
        (Inr x, Inr y) \<Rightarrow> Inr (x, y)
      | (Inl err, Inr y) \<Rightarrow> Inl err
      | (Inr x, Inl err) \<Rightarrow> Inl err
      | (Inl err1, Inl err2) \<Rightarrow> Inl (if first_rejects_first then err1 else err2))"

text \<open>
  \<open>rerankDocs\<close>. Both embedding requests are issued before either is awaited. The result
  holds \<open>docs[sim.index]\<close>, which is \<open>undefined\<close> for an index past the end of \<open>docs\<close>.
\<close>

definition rerankDocs ::
  "Env \<Rightarrow> SearchAgent \<Rightarrow> string \<Rightarrow> Document list \<Rightarrow> Embeddings
     \<Rightarrow> (error + Document option list) \<times> event list" where
  "rerankDocs env agent query docs embeddings =
     (if length docs = 0 then (Inr [], [])
      else
        let texts = map pageContent docs;
            calls = [EmbedQueryCall query, EmbedDocumentsCall texts]
        in case promise_all2 (query_rejects_first embeddings)
                  (embedQuery embeddings query) (embedDocuments embeddings texts) of
             Inl err \<Rightarrow> (Inl err, calls)
           | Inr (queryEmbedding, docEmbeddings) \<Rightarrow>
               (case similarities_from env agent queryEmbedding 0 docEmbeddings of
                  Inl err \<Rightarrow> (Inl err, calls)
                | Inr similarities \<Rightarrow>
                    (Inr (map (\<lambda>sim. array_get docs (index sim))
                            (select_sims agent similarities)),
                     calls)))"

section \<open>The search pipeline\<close>

text \<open>\<open>${i + 1}\<close> for a position: the decimal digits.\<close>

fun decimal :: "nat \<Rightarrow> string" where
  "decimal n =
     (if n < 10 then [''0123456789'' ! n]
      else decimal (n div 10) @ [''0123456789'' ! (n mod 10)])"

declare decimal.simps [simp del]

text \<open>
  \<open>docs.map((doc, i) => `[${i + 1}] ${doc.metadata.title}\n${doc.pageContent}`)\<close>, with
  the running index explicit. Reading \<open>.metadata\<close> of \<open>undefined\<close> throws.
\<close>

fun render_docs :: "nat \<Rightarrow> Document option list \<Rightarrow> error + string list" where
  "render_docs i [] = Inr []"
| "render_docs i (None # ds) = Inl TypeError"
| "render_docs i (Some doc # ds) =
     (case render_docs (Suc i) ds of
        Inl err \<Rightarrow> Inl err
      | Inr rs \<Rightarrow>
          Inr ((''['' @ decimal (i + 1) @ ''] '' @ title (metadata doc) @ [CHR 0x0A] @ pageContent doc)
               # rs))"

text \<open>\<open>xs.join(sep)\<close>\<close>

fun join :: "string \<Rightarrow> string list \<Rightarrow> string" where
  "join sep [] = []"
| "join sep [x] = x"
| "join sep (x # y # ys) = x @ sep @ join sep (y # ys)"

definition build_context :: "Document option list \<Rightarrow> error + string" where
  "build_context docs =
     (case render_docs 0 docs of
        Inl err \<Rightarrow> Inl err
      | Inr rs \<Rightarrow> Inr (join [CHR 0x0A, CHR 0x0A] rs))"

definition rephrase_prompt :: "string \<Rightarrow> string" where
  "rephrase_prompt query =
     ''Rephrase the following query for web search, making it more focused and specific:''
     @ [CHR 0x0A] @ ''        Query: '' @ query
     @ [CHR 0x0A] @ ''        Rephrased query:''"

definition answer_prompt :: "string \<Rightarrow> string \<Rightarrow> message list \<Rightarrow> message list" where
  "answer_prompt question context history =
     [(System,
       ''You are an AI assistant that helps users by providing detailed, accurate answers based on the given context. ''
       @ [CHR 0x0A] @ ''        Always cite your sources using [number] notation.'')]
     @ history
     @ [(User, question), (System, ''Context:'' @ [CHR 0x0A] @ context)]"

text \<open>
  The function at the end of the search chain: search, fetch, rerank. \<open>results.map\<close> on
  \<open>undefined\<close> throws.
\<close>

definition retrieve ::
  "Env \<Rightarrow> SearchAgent \<Rightarrow> Embeddings \<Rightarrow> nat list \<Rightarrow> string
     \<Rightarrow> (error + Document option list) \<times> event list" where
  "retrieve env agent embeddings order searchQuery =
     (case searchWeb env searchQuery of
        (None, ev1) \<Rightarrow> (Inl TypeError, ev1)
      | (Some rs, ev1) \<Rightarrow>
          (case getDocumentsFromUrls env order (map result_url rs) of
             (docs, ev2) \<Rightarrow>
               (case rerankDocs env agent searchQuery docs embeddings of
                  (r, ev3) \<Rightarrow> (r, ev1 @ ev2 @ ev3))))"

definition search ::
  "Env \<Rightarrow> SearchAgent \<Rightarrow> nat list \<Rightarrow> string \<Rightarrow> BaseChatModel \<Rightarrow> Embeddings \<Rightarrow> message list
     \<Rightarrow> (error + string) \<times> event list" where
  "search env agent order query llm embeddings history =
     (let ask = TextPrompt (rephrase_prompt query)
      in case invoke llm ask of
           Inl err \<Rightarrow> (Inl err, [LlmCall ask])
         | Inr searchQuery \<Rightarrow>
             (case retrieve env agent embeddings order searchQuery of
                (Inl err, ev) \<Rightarrow> (Inl err, LlmCall ask # ev)
              | (Inr docs, ev) \<Rightarrow>
                  (case build_context docs of
                     Inl err \<Rightarrow> (Inl err, LlmCall ask # ev)
                   | Inr context \<Rightarrow>
                       (let answer = ChatPrompt (answer_prompt query context history)
                        in (invoke llm answer, LlmCall ask # ev @ [LlmCall answer])))))"

text \<open>
  The agent as an object: its state is the record, its transitions are the calls of its
  methods. No method assigns \<open>this.config\<close>.
\<close>

datatype method_call =
    CallComputeSimilarity vec vec
  | CallSearchWeb string
  | CallGetDocumentsFromUrls "nat list" "string list"
  | CallRerankDocs string "Document list" Embeddings
  | CallSearch "nat list" string BaseChatModel Embeddings "message list"

datatype outcome =
    Similarity "error + jsnum"
  | SearchResults "RawSearchResult list option"
  | Documents "Document list"
  | Reranked "error + Document option list"
  | Answer "error + string"

fun call :: "Env \<Rightarrow> SearchAgent \<Rightarrow> method_call \<Rightarrow> SearchAgent \<times> outcome \<times> event list" where
  "call env agent (CallComputeSimilarity x y) =
     (agent, Similarity (computeSimilarity env agent x y), [])"
| "call env agent (CallSearchWeb query) =
     (case searchWeb env query of (r, ev) \<Rightarrow> (agent, SearchResults r, ev))"
| "call env agent (CallGetDocumentsFromUrls order urls) =
     (case getDocumentsFromUrls env order urls of (ds, ev) \<Rightarrow> (agent, Documents ds, ev))"
| "call env agent (CallRerankDocs query docs embeddings) =
     (case rerankDocs env agent query docs embeddings of (r, ev) \<Rightarrow> (agent, Reranked r, ev))"
| "call env agent (CallSearch order query llm embeddings history) =
     (case search env agent order query llm embeddings history of (r, ev) \<Rightarrow> (agent, Answer r, ev))"

text \<open>The agent after a sequence of calls.\<close>

fun after_calls :: "Env \<Rightarrow> SearchAgent \<Rightarrow> method_call list \<Rightarrow> SearchAgent" where
  "after_calls env agent [] = agent"
| "after_calls env agent (c # cs) = after_calls env (fst (call env agent c)) cs"

section \<open>Test doubles\<close>

text \<open>Stand-ins for the collaborators, used to run the model on concrete inputs.\<close>

definition dot :: "vec \<Rightarrow> vec \<Rightarrow> real" where
  "dot x y = sum_list (map2 (*) x y)"

definition stub_pages :: "string \<Rightarrow> error + response_data" where
  "stub_pages u =
     (if u = ''https://x.test/a''
        then Inr (TextData ''<html><body>No title here</body></html>'')
      else if u = ''https://x.test/b''
        then Inr (TextData ''<html><head><title>Page B</title></head><body>b</body></html>'')
      else if u = ''https://searx.test/search?q=cats''
        then Inr (JsonData \<lparr>results = Some [\<lparr>result_url = ''https://x.test/a''\<rparr>,
                                              \<lparr>result_url = ''https://x.test/down''\<rparr>]\<rparr>)
      else if u = ''https://searx.test/search?q=empty''
        then Inr (JsonData \<lparr>results = None\<rparr>)
      else if u = ''https://searx.test/search?q=null''
        then Inr NullData
      else Inl (Failure ''ECONNREFUSED''))"

definition stub_env :: Env where
  "stub_env =
     \<lparr>SEARXNG_URL = Some ''https://searx.test'',
      URL_href = (\<lambda>base params.
        if \<not> prefix ''http'' base then Inl TypeError
        else case map_of params ''q'' of
               None \<Rightarrow> Inl TypeError
             | Some q \<Rightarrow> Inr (base @ ''?q='' @ q)),
      axios_get = stub_pages,
      htmlToText = (\<lambda>html. Inr html),
      splitText = (\<lambda>text. Inr [take 6 text, take 6 (drop 6 text), drop 12 text]),
      cosineSimilarity = (\<lambda>x y.
        if length x \<noteq> length y then Inl (Failure ''length mismatch'')
        else if dot x x = 0 \<or> dot y y = 0 then Inr NaN
        else Inr (Num (dot x y / (sqrt (dot x x) * sqrt (dot y y))))),
      computeDot = (\<lambda>x y.
        if length x \<noteq> length y then Inl (Failure ''length mismatch'')
        else Inr (Num (dot x y)))\<rparr>"

text \<open>A language model that rephrases every query to \<open>cats\<close> and echoes the last chat message.\<close>

definition stub_llm :: BaseChatModel where
  "stub_llm =
     \<lparr>invoke = (\<lambda>input.
        case input of
          TextPrompt p \<Rightarrow> Inr ''cats''
        | ChatPrompt ms \<Rightarrow> (case ms of [] \<Rightarrow> Inl (Failure ''empty prompt'') | _ \<Rightarrow> Inr (snd (last ms))))\<rparr>"

definition stub_embeddings :: "vec \<Rightarrow> vec list \<Rightarrow> Embeddings" where
  "stub_embeddings q ds =
     \<lparr>embedQuery = (\<lambda>_. Inr q), embedDocuments = (\<lambda>_. Inr ds), query_rejects_first = True\<rparr>"

definition chunk :: "string \<Rightarrow> Document" where
  "chunk c = \<lparr>pageContent = c, metadata = \<lparr>title = ''T'', url = ''https://x.test/a''\<rparr>\<rparr>"

definition dot_agent :: "real \<Rightarrow> real \<Rightarrow> SearchAgent" where
  "dot_agent t m = new_SearchAgent
     \<lparr>given_similarityMeasure = Some (Some Dot),
      given_rerankThreshold = Some (Some (Num t)),
      given_maxResults = Some (Some (Num m))\<rparr>"

definition page_a_chunk :: "string \<Rightarrow> Document" where
  "page_a_chunk c =
     \<lparr>pageContent = c, metadata = \<lparr>title = ''https://x.test/a'', url = ''https://x.test/a''\<rparr>\<rparr>"

section \<open>Auxiliary notions for the proofs\<close>

text \<open>Order of the reranked output: higher score first, equal scores by input position.\<close>

definition ranked_before :: "Sim \<Rightarrow> Sim \<Rightarrow> bool" where
  "ranked_before a b =
     (case (similarity a, similarity b) of
        (Num x, Num y) \<Rightarrow> y < x \<or> (y = x \<and> index a < index b)
      | _ \<Rightarrow> False)"



text \<open>Unfolding sets for running the model on the test doubles.\<close>

lemmas rerank_run = rerankDocs_def select_sims_def by_similarity_desc_def computeSimilarity_def
  array_get_def js_trunc_def Let_def promise_all2_def stub_env_def stub_embeddings_def chunk_def dot_agent_def
  new_SearchAgent_def spread_key_def defaultConfig_def dot_def

lemmas fetch_run = getDocumentsFromUrls_def url_task_def process_url_def stub_env_def
  stub_pages_def page_title_def normalize_text_def trim_def is_space_def is_line_terminator_def

lemmas search_run = searchWeb_def search_request_def search_endpoint_def search_params_def
  stub_env_def stub_pages_def

section \<open>Properties of the array operations\<close>

lemma slice0_take: "\<exists>k. slice0 m xs = take k xs"
proof (cases m)
  case None
  then have "slice0 m xs = take (length xs) xs" by simp
  then show ?thesis by blast
next
  case (Some n)
  then show ?thesis by (cases n) (auto simp: Let_def)
qed

lemma slice0_length:
  assumes "0 \<le> r"
  shows "real (length (slice0 (Some (Num r)) xs)) \<le> r"
proof -
  have k: "0 \<le> \<lfloor>r\<rfloor>" using assms by simp
  have "length (slice0 (Some (Num r)) xs) \<le> nat \<lfloor>r\<rfloor>"
    using assms k by (simp add: js_trunc_def Let_def)
  then have "real (length (slice0 (Some (Num r)) xs)) \<le> real (nat \<lfloor>r\<rfloor>)"
    by simp
  also have "\<dots> = of_int \<lfloor>r\<rfloor>" using k by simp
  also have "\<dots> \<le> r" by simp
  finally show ?thesis .
qed

lemma set_sort_insert: "set (sort_insert cmp x ys) = insert x (set ys)"
  by (induction ys) auto

lemma set_array_sort: "set (array_sort cmp xs) = set xs"
  by (induction xs) (auto simp: set_sort_insert)

lemma mset_sort_insert: "mset (sort_insert cmp x ys) = add_mset x (mset ys)"
  by (induction ys) auto

lemma mset_array_sort: "mset (array_sort cmp xs) = mset xs"
  by (induction xs) (auto simp: mset_sort_insert)

lemma js_gt_Num: "js_gt v w \<Longrightarrow> \<exists>a b. v = Num a \<and> w = Num b \<and> b < a"
  by (cases v; cases w) auto

lemma sorted_sort_insert:
  assumes "sorted_wrt ranked_before ys"
    and "\<forall>y\<in>set ys. index x < index y"
    and "similarity x \<noteq> NaN" and "\<forall>y\<in>set ys. similarity y \<noteq> NaN"
  shows "sorted_wrt ranked_before (sort_insert by_similarity_desc x ys)"
  using assms
proof (induction ys)
  case Nil
  then show ?case by simp
next
  case (Cons y ys)
  obtain a where a: "similarity x = Num a" using Cons.prems(3) by (cases "similarity x") auto
  obtain b where b: "similarity y = Num b" using Cons.prems(4) by (cases "similarity y") auto
  show ?case
  proof (cases "a < b")
    case True
    then have ins: "sort_insert by_similarity_desc x (y # ys) = y # sort_insert by_similarity_desc x ys"
      by (simp add: by_similarity_desc_def a b)
    have "sorted_wrt ranked_before (sort_insert by_similarity_desc x ys)"
      using Cons by simp
    moreover have "\<forall>z\<in>set (sort_insert by_similarity_desc x ys). ranked_before y z"
      using Cons.prems(1) True by (auto simp: set_sort_insert ranked_before_def a b)
    ultimately show ?thesis unfolding ins by simp
  next
    case False
    then have ins: "sort_insert by_similarity_desc x (y # ys) = x # y # ys"
      by (simp add: by_similarity_desc_def a b)
    have "ranked_before x y"
      using False Cons.prems(2) by (auto simp: ranked_before_def a b)
    moreover have "\<forall>z\<in>set ys. ranked_before x z"
    proof
      fix z assume z: "z \<in> set ys"
      then have "ranked_before y z" using Cons.prems(1) by simp
      moreover have "index x < index z" using Cons.prems(2) z by simp
      ultimately show "ranked_before x z"
        using False by (auto simp: ranked_before_def a b split: jsnum.splits)
    qed
    ultimately show ?thesis using Cons.prems(1) unfolding ins by simp
  qed
qed

lemma sorted_array_sort:
  assumes "sorted_wrt (\<lambda>a b. index a < index b) xs"
    and "\<forall>x\<in>set xs. similarity x \<noteq> NaN"
  shows "sorted_wrt ranked_before (array_sort by_similarity_desc xs)"
  using assms
  by (induction xs) (auto simp: sorted_sort_insert set_array_sort)

section \<open>Properties of the reranker\<close>

lemma similarities_from_props:
  "similarities_from env agent q i es = Inr sims \<Longrightarrow>
     map index sims = [i..<i + length es] \<and>
     (\<forall>k<length es. computeSimilarity env agent q (es ! k) = Inr (similarity (sims ! k)))"
proof (induction es arbitrary: i sims)
  case Nil
  then show ?case by simp
next
  case (Cons e es)
  from Cons.prems obtain s rest where
    s: "computeSimilarity env agent q e = Inr s"
    and rest: "similarities_from env agent q (Suc i) es = Inr rest"
    and sims: "sims = \<lparr>index = i, similarity = s\<rparr> # rest"
    by (auto split: sum.splits)
  from Cons.IH [OF rest] have
    ih1: "map index rest = [Suc i..<Suc i + length es]"
    and ih2: "\<forall>k<length es. computeSimilarity env agent q (es ! k) = Inr (similarity (rest ! k))"
    by simp_all
  have "[i..<i + length (e # es)] = i # [Suc i..<Suc i + length es]"
    by (subst upt_rec) simp
  then have "map index sims = [i..<i + length (e # es)]"
    using ih1 sims by simp
  moreover have "\<forall>k<length (e # es). computeSimilarity env agent q ((e # es) ! k) = Inr (similarity (sims ! k))"
    using ih2 s sims by (auto simp: nth_Cons split: nat.splits)
  ultimately show ?case by blast
qed

lemma select_sims_take:
  "\<exists>k. select_sims agent sims =
     take k (array_sort by_similarity_desc
       (filter (\<lambda>sim. js_gt (similarity sim) (js_or_num (rerankThreshold (config agent)) (Num 0.3))) sims))"
  unfolding select_sims_def by (rule slice0_take)

lemma select_sims_subset:
  assumes "s \<in> set (select_sims agent sims)"
  shows "s \<in> set sims \<and> js_gt (similarity s) (js_or_num (rerankThreshold (config agent)) (Num 0.3))"
proof -
  obtain k where "select_sims agent sims =
     take k (array_sort by_similarity_desc
       (filter (\<lambda>sim. js_gt (similarity sim) (js_or_num (rerankThreshold (config agent)) (Num 0.3))) sims))"
    using select_sims_take by blast
  with assms have "s \<in> set (array_sort by_similarity_desc
       (filter (\<lambda>sim. js_gt (similarity sim) (js_or_num (rerankThreshold (config agent)) (Num 0.3))) sims))"
    by (auto dest: in_set_takeD)
  then show ?thesis by (simp add: set_array_sort)
qed

lemma select_sims_sorted:
  assumes "sorted_wrt (\<lambda>a b. index a < index b) sims"
  shows "sorted_wrt ranked_before (select_sims agent sims)"
proof -
  let ?P = "\<lambda>sim. js_gt (similarity sim) (js_or_num (rerankThreshold (config agent)) (Num 0.3))"
  obtain k where k: "select_sims agent sims = take k (array_sort by_similarity_desc (filter ?P sims))"
    using select_sims_take by blast
  have "sorted_wrt (\<lambda>a b. index a < index b) (filter ?P sims)"
    using assms by (rule sorted_wrt_filter)
  moreover have "\<forall>x\<in>set (filter ?P sims). similarity x \<noteq> NaN"
    by (auto dest: js_gt_Num)
  ultimately have "sorted_wrt ranked_before (array_sort by_similarity_desc (filter ?P sims))"
    by (rule sorted_array_sort)
  then show ?thesis unfolding k by (rule sorted_wrt_take)
qed

lemma select_sims_distinct:
  assumes "distinct (map index sims)"
  shows "distinct (map index (select_sims agent sims))"
proof -
  let ?P = "\<lambda>sim. js_gt (similarity sim) (js_or_num (rerankThreshold (config agent)) (Num 0.3))"
  obtain k where k: "select_sims agent sims = take k (array_sort by_similarity_desc (filter ?P sims))"
    using select_sims_take by blast
  have "distinct (map index (filter ?P sims))"
    using assms by (rule distinct_map_filter)
  moreover have "mset (map index (array_sort by_similarity_desc (filter ?P sims)))
      = mset (map index (filter ?P sims))"
    using mset_array_sort [of by_similarity_desc "filter ?P sims"]
    by (metis mset_map)
  ultimately have "distinct (map index (array_sort by_similarity_desc (filter ?P sims)))"
    using mset_eq_imp_distinct_iff by blast
  then show ?thesis unfolding k by (metis take_map distinct_take)
qed

lemma index_sorted:
  assumes "map index sims = [i..<j]"
  shows "sorted_wrt (\<lambda>a b. index a < index b) sims"
proof -
  have "sorted_wrt (<) (map index sims)" unfolding assms by simp
  then show ?thesis by (simp add: sorted_wrt_map)
qed

lemma sim_at_index:
  assumes "map index sims = [0..<n]" and "s \<in> set sims"
  shows "index s < n \<and> sims ! index s = s"
proof -
  from assms(2) obtain k where k: "k < length sims" "sims ! k = s"
    by (auto simp: in_set_conv_nth)
  have len: "length sims = n" using assms(1) by (metis length_map length_upt minus_nat.diff_0)
  have "index (sims ! k) = map index sims ! k" using k(1) by simp
  also have "\<dots> = k" unfolding assms(1) using k(1) len by simp
  finally show ?thesis using k len by simp
qed

lemma rerankDocs_Inr:
  assumes "rerankDocs env agent query docs embeddings = (Inr out, tr)" and "docs \<noteq> []"
  obtains qe des sims where
    "embedQuery embeddings query = Inr qe"
    "embedDocuments embeddings (map pageContent docs) = Inr des"
    "similarities_from env agent qe 0 des = Inr sims"
    "out = map (\<lambda>sim. array_get docs (index sim)) (select_sims agent sims)"
  using assms
  by (auto simp: rerankDocs_def Let_def promise_all2_def split: sum.splits)

lemma threshold_le:
  assumes "js_gt v (js_or_num (Some (Num t)) (Num 0.3))"
  shows "\<exists>x. v = Num x \<and> t < x"
  using assms by (cases v) (auto split: if_splits)

text \<open>
  The reranker returns whenever both embedding requests succeed and every document
  embedding can be scored against the query embedding.
\<close>

lemma similarities_from_succeeds:
  "\<forall>e\<in>set es. \<exists>s. computeSimilarity env agent q e = Inr s
     \<Longrightarrow> \<exists>sims. similarities_from env agent q i es = Inr sims"
proof (induction es arbitrary: i)
  case Nil
  show ?case by simp
next
  case (Cons e es)
  then obtain s where s: "computeSimilarity env agent q e = Inr s" by auto
  from Cons obtain sims where "similarities_from env agent q (Suc i) es = Inr sims"
    by fastforce
  with s show ?case by simp
qed

lemma rerankDocs_returns:
  assumes "embedQuery embeddings query = Inr qe"
    and "embedDocuments embeddings (map pageContent docs) = Inr des"
    and "\<forall>e\<in>set des. \<exists>s. computeSimilarity env agent qe e = Inr s"
  shows "\<exists>out tr. rerankDocs env agent query docs embeddings = (Inr out, tr)"
proof -
  from similarities_from_succeeds [OF assms(3)]
  obtain sims where "similarities_from env agent qe 0 des = Inr sims" by blast
  then show ?thesis
    using assms(1,2) by (simp add: rerankDocs_def Let_def promise_all2_def)
qed

text \<open>
  C1. Let the configured threshold be a number \<open>t\<close> and the configured limit a number
  \<open>m \<ge> 0\<close> (the data model asks for a threshold in [0, 1] and a positive limit). Whenever
  \<open>rerankDocs\<close> returns for a non-empty document list, what it returns is \<open>docs[i]\<close> for
  a list of positions \<open>i\<close>; for each such position the score of the query embedding
  against the \<open>i\<close>-th document embedding, computed again under the configured measure, is
  a number strictly above \<open>t\<close>; and the result has at most \<open>m\<close> entries.
\<close>

theorem rerankDocs_above_threshold_and_bounded:
  assumes "rerankDocs env agent query docs embeddings = (Inr out, tr)"
    and "docs \<noteq> []"
    and "rerankThreshold (config agent) = Some (Num t)"
    and "maxResults (config agent) = Some (Num m)"
    and "0 \<le> m"
  shows "real (length out) \<le> m \<and>
    (\<exists>qe des idxs.
       embedQuery embeddings query = Inr qe \<and>
       embedDocuments embeddings (map pageContent docs) = Inr des \<and>
       out = map (array_get docs) idxs \<and>
       (\<forall>i\<in>set idxs. i < length des \<and>
          (\<exists>x. computeSimilarity env agent qe (des ! i) = Inr (Num x) \<and> t < x)))"
proof -
  from assms(1,2) obtain qe des sims where
    qe: "embedQuery embeddings query = Inr qe"
    and des: "embedDocuments embeddings (map pageContent docs) = Inr des"
    and sims: "similarities_from env agent qe 0 des = Inr sims"
    and out: "out = map (\<lambda>sim. array_get docs (index sim)) (select_sims agent sims)"
    by (rule rerankDocs_Inr)
  from similarities_from_props [OF sims] have
    idx: "map index sims = [0..<length des]"
    and sc: "\<forall>k<length des. computeSimilarity env agent qe (des ! k) = Inr (similarity (sims ! k))"
    by simp_all
  let ?idxs = "map index (select_sims agent sims)"
  have "length out = length (slice0 (Some (Num m))
      (array_sort by_similarity_desc
         (filter (\<lambda>sim. js_gt (similarity sim) (js_or_num (rerankThreshold (config agent)) (Num 0.3))) sims)))"
    unfolding out select_sims_def assms(4) by simp
  then have bound: "real (length out) \<le> m"
    using slice0_length [OF assms(5)] by simp
  have shape: "out = map (array_get docs) ?idxs"
    unfolding out by simp
  have scores: "\<forall>i\<in>set ?idxs. i < length des \<and>
          (\<exists>x. computeSimilarity env agent qe (des ! i) = Inr (Num x) \<and> t < x)"
  proof
    fix i assume "i \<in> set ?idxs"
    then obtain s where s: "s \<in> set (select_sims agent sims)" and i: "i = index s" by auto
    from select_sims_subset [OF s] have mem: "s \<in> set sims"
      and gt: "js_gt (similarity s) (js_or_num (Some (Num t)) (Num 0.3))"
      unfolding assms(3) by simp_all
    from sim_at_index [OF idx mem] have lt: "index s < length des" and at: "sims ! index s = s"
      by simp_all
    from threshold_le [OF gt] obtain x where x: "similarity s = Num x" "t < x" by blast
    have "computeSimilarity env agent qe (des ! i) = Inr (Num x)"
      using sc lt at x(1) i by simp
    then show "i < length des \<and> (\<exists>x. computeSimilarity env agent qe (des ! i) = Inr (Num x) \<and> t < x)"
      using lt i x(2) by blast
  qed
  from bound qe des shape scores show ?thesis by blast
qed

text \<open>
  Three documents scoring 0.1, 0.5 and 0.9 under the dot product, threshold 0.3, limit 2:
  the result is the third document, then the second.
\<close>

theorem rerankDocs_above_threshold_and_bounded_witness:
  "rerankDocs stub_env (dot_agent 0.3 2) ''q'' [chunk ''a'', chunk ''b'', chunk ''c'']
      (stub_embeddings [1] [[0.1], [0.5], [0.9]])
   = (Inr [Some (chunk ''c''), Some (chunk ''b'')],
      [EmbedQueryCall ''q'', EmbedDocumentsCall [''a'', ''b'', ''c'']])
   \<and> real (length [Some (chunk ''c''), Some (chunk ''b'')]) \<le> 2
   \<and> (\<exists>qe des idxs.
       embedQuery (stub_embeddings [1] [[0.1], [0.5], [0.9]]) ''q'' = Inr qe \<and>
       embedDocuments (stub_embeddings [1] [[0.1], [0.5], [0.9]])
         (map pageContent [chunk ''a'', chunk ''b'', chunk ''c'']) = Inr des \<and>
       [Some (chunk ''c''), Some (chunk ''b'')]
         = map (array_get [chunk ''a'', chunk ''b'', chunk ''c'']) idxs \<and>
       (\<forall>i\<in>set idxs. i < length des \<and>
          (\<exists>x. computeSimilarity stub_env (dot_agent 0.3 2) qe (des ! i) = Inr (Num x) \<and> 0.3 < x)))"
proof -
  have run: "rerankDocs stub_env (dot_agent 0.3 2) ''q'' [chunk ''a'', chunk ''b'', chunk ''c'']
      (stub_embeddings [1] [[0.1], [0.5], [0.9]])
   = (Inr [Some (chunk ''c''), Some (chunk ''b'')],
      [EmbedQueryCall ''q'', EmbedDocumentsCall [''a'', ''b'', ''c'']])"
    by (simp add: rerank_run)
  have ne: "[chunk ''a'', chunk ''b'', chunk ''c''] \<noteq> []" by simp
  have t: "rerankThreshold (config (dot_agent 0.3 2)) = Some (Num 0.3)"
    by (simp add: dot_agent_def new_SearchAgent_def spread_key_def)
  have m: "maxResults (config (dot_agent 0.3 2)) = Some (Num 2)"
    by (simp add: dot_agent_def new_SearchAgent_def spread_key_def)
  have pos: "(0::real) \<le> 2" by simp
  from rerankDocs_above_threshold_and_bounded [OF run ne t m pos] run
  show ?thesis by blast
qed

text \<open>
  C3. Whenever \<open>rerankDocs\<close> returns for a non-empty document list, the positions it
  selected come with their scores in descending order, and of two selected positions
  with the same score the one that is earlier in the input comes first.
\<close>

theorem rerankDocs_sorted_stable:
  assumes "rerankDocs env agent query docs embeddings = (Inr out, tr)"
    and "docs \<noteq> []"
  shows "\<exists>qe des idxs scores.
       embedQuery embeddings query = Inr qe \<and>
       embedDocuments embeddings (map pageContent docs) = Inr des \<and>
       out = map (array_get docs) idxs \<and>
       length scores = length idxs \<and>
       (\<forall>j<length idxs. idxs ! j < length des \<and>
          computeSimilarity env agent qe (des ! (idxs ! j)) = Inr (Num (scores ! j))) \<and>
       (\<forall>j k. j < k \<and> k < length idxs \<longrightarrow>
          scores ! k < scores ! j \<or> (scores ! k = scores ! j \<and> idxs ! j < idxs ! k))"
proof -
  from assms obtain qe des sims where
    qe: "embedQuery embeddings query = Inr qe"
    and des: "embedDocuments embeddings (map pageContent docs) = Inr des"
    and sims: "similarities_from env agent qe 0 des = Inr sims"
    and out: "out = map (\<lambda>sim. array_get docs (index sim)) (select_sims agent sims)"
    by (rule rerankDocs_Inr)
  from similarities_from_props [OF sims] have
    idx: "map index sims = [0..<length des]"
    and sc: "\<forall>k<length des. computeSimilarity env agent qe (des ! k) = Inr (similarity (sims ! k))"
    by simp_all
  let ?sel = "select_sims agent sims"
  let ?idxs = "map index ?sel"
  let ?num = "\<lambda>v. case v of Num x \<Rightarrow> x | NaN \<Rightarrow> 0"
  let ?scores = "map (\<lambda>s. ?num (similarity s)) ?sel"
  have srt: "sorted_wrt ranked_before ?sel"
    using index_sorted [OF idx] by (rule select_sims_sorted)
  have nums: "\<forall>s\<in>set ?sel. similarity s = Num (?num (similarity s))"
  proof
    fix s assume "s \<in> set ?sel"
    from select_sims_subset [OF this]
    have "js_gt (similarity s) (js_or_num (rerankThreshold (config agent)) (Num 0.3))" by simp
    from js_gt_Num [OF this] obtain a where "similarity s = Num a" by blast
    then show "similarity s = Num (?num (similarity s))" by simp
  qed
  have shape: "out = map (array_get docs) ?idxs"
    unfolding out by simp
  have each: "\<forall>j<length ?idxs. ?idxs ! j < length des \<and>
          computeSimilarity env agent qe (des ! (?idxs ! j)) = Inr (Num (?scores ! j))"
  proof (intro allI impI)
    fix j assume j: "j < length ?idxs"
    then have mem: "?sel ! j \<in> set ?sel" by simp
    then have mem': "?sel ! j \<in> set sims" using select_sims_subset by blast
    from sim_at_index [OF idx mem'] have lt: "index (?sel ! j) < length des"
      and at: "sims ! index (?sel ! j) = ?sel ! j" by simp_all
    have "computeSimilarity env agent qe (des ! index (?sel ! j)) = Inr (similarity (?sel ! j))"
      using sc lt at by simp
    also have "\<dots> = Inr (Num (?num (similarity (?sel ! j))))"
      using nums mem by simp
    finally show "?idxs ! j < length des \<and>
          computeSimilarity env agent qe (des ! (?idxs ! j)) = Inr (Num (?scores ! j))"
      using lt j by simp
  qed
  have order: "\<forall>j k. j < k \<and> k < length ?idxs \<longrightarrow>
          ?scores ! k < ?scores ! j \<or> (?scores ! k = ?scores ! j \<and> ?idxs ! j < ?idxs ! k)"
  proof (intro allI impI)
    fix j k assume jk: "j < k \<and> k < length ?idxs"
    then have "ranked_before (?sel ! j) (?sel ! k)"
      using srt by (simp add: sorted_wrt_iff_nth_less)
    moreover have "similarity (?sel ! j) = Num (?num (similarity (?sel ! j)))"
      using nums jk by simp
    moreover have "similarity (?sel ! k) = Num (?num (similarity (?sel ! k)))"
      using nums jk by simp
    ultimately show "?scores ! k < ?scores ! j \<or> (?scores ! k = ?scores ! j \<and> ?idxs ! j < ?idxs ! k)"
      using jk by (auto simp: ranked_before_def split: jsnum.splits)
  qed
  have "length ?scores = length ?idxs" by simp
  with qe des shape each order show ?thesis by blast
qed

text \<open>Scores 0.5, 0.1, 0.9, 0.5 and limit 3: the third document, then the first, then the fourth.\<close>

theorem rerankDocs_sorted_stable_witness:
  "rerankDocs stub_env (dot_agent 0.3 3) ''q'' [chunk ''a'', chunk ''b'', chunk ''c'', chunk ''d'']
      (stub_embeddings [1] [[0.5], [0.1], [0.9], [0.5]])
   = (Inr [Some (chunk ''c''), Some (chunk ''a''), Some (chunk ''d'')],
      [EmbedQueryCall ''q'', EmbedDocumentsCall [''a'', ''b'', ''c'', ''d'']])
   \<and> (\<exists>qe des idxs scores.
       embedQuery (stub_embeddings [1] [[0.5], [0.1], [0.9], [0.5]]) ''q'' = Inr qe \<and>
       embedDocuments (stub_embeddings [1] [[0.5], [0.1], [0.9], [0.5]])
         (map pageContent [chunk ''a'', chunk ''b'', chunk ''c'', chunk ''d'']) = Inr des \<and>
       [Some (chunk ''c''), Some (chunk ''a''), Some (chunk ''d'')]
         = map (array_get [chunk ''a'', chunk ''b'', chunk ''c'', chunk ''d'']) idxs \<and>
       length scores = length idxs \<and>
       (\<forall>j<length idxs. idxs ! j < length des \<and>
          computeSimilarity stub_env (dot_agent 0.3 3) qe (des ! (idxs ! j)) = Inr (Num (scores ! j))) \<and>
       (\<forall>j k. j < k \<and> k < length idxs \<longrightarrow>
          scores ! k < scores ! j \<or> (scores ! k = scores ! j \<and> idxs ! j < idxs ! k)))"
proof -
  have run: "rerankDocs stub_env (dot_agent 0.3 3) ''q'' [chunk ''a'', chunk ''b'', chunk ''c'', chunk ''d'']
      (stub_embeddings [1] [[0.5], [0.1], [0.9], [0.5]])
   = (Inr [Some (chunk ''c''), Some (chunk ''a''), Some (chunk ''d'')],
      [EmbedQueryCall ''q'', EmbedDocumentsCall [''a'', ''b'', ''c'', ''d'']])"
    by (simp add: rerank_run)
  have ne: "[chunk ''a'', chunk ''b'', chunk ''c'', chunk ''d''] \<noteq> []" by simp
  from rerankDocs_sorted_stable [OF run ne] run show ?thesis by blast
qed

text \<open>
  C9, as stated, fails: when the embedding model returns more vectors than it was given
  texts, a selected position can lie past the end of \<open>docs\<close>, and the entry returned for
  it is \<open>undefined\<close>, not an input document. One document, two vectors scoring 0.5 and
  0.9:
\<close>

theorem rerankDocs_undefined_entry_counterexample:
  "rerankDocs stub_env (dot_agent 0.3 2) ''q'' [chunk ''a''] (stub_embeddings [1] [[0.5], [0.9]])
   = (Inr [None, Some (chunk ''a'')], [EmbedQueryCall ''q'', EmbedDocumentsCall [''a'']])"
  by (simp add: rerank_run)

text \<open>
  C9, amended. Whenever \<open>rerankDocs\<close> returns, its result is \<open>docs[i]\<close> for a list of
  pairwise distinct positions \<open>i\<close>, each below the number of vectors the embedding model
  returned; so no input document occupies two places of the result. Where every selected
  position is below the number of documents, every entry is that input document,
  unchanged; this is so whenever the model returns no more vectors than it was given
  texts.
\<close>

theorem rerankDocs_selects_distinct_inputs:
  assumes "rerankDocs env agent query docs embeddings = (Inr out, tr)"
  shows "\<exists>idxs. distinct idxs \<and> out = map (array_get docs) idxs \<and>
           (\<forall>des. embedDocuments embeddings (map pageContent docs) = Inr des
              \<longrightarrow> (\<forall>i\<in>set idxs. i < length des)) \<and>
           ((\<forall>i\<in>set idxs. i < length docs) \<longrightarrow> out = map (\<lambda>i. Some (docs ! i)) idxs) \<and>
           ((\<forall>des. embedDocuments embeddings (map pageContent docs) = Inr des
               \<longrightarrow> length des \<le> length docs)
              \<longrightarrow> (\<forall>i\<in>set idxs. i < length docs) \<and> out = map (\<lambda>i. Some (docs ! i)) idxs)"
proof (cases "docs = []")
  case True
  then have "out = []" using assms(1) by (simp add: rerankDocs_def)
  then have "distinct ([]::nat list) \<and> out = map (array_get docs) [] \<and>
           (\<forall>des. embedDocuments embeddings (map pageContent docs) = Inr des
              \<longrightarrow> (\<forall>i\<in>set ([]::nat list). i < length des)) \<and>
           ((\<forall>i\<in>set ([]::nat list). i < length docs) \<longrightarrow> out = map (\<lambda>i. Some (docs ! i)) []) \<and>
           ((\<forall>des. embedDocuments embeddings (map pageContent docs) = Inr des
               \<longrightarrow> length des \<le> length docs)
              \<longrightarrow> (\<forall>i\<in>set ([]::nat list). i < length docs) \<and> out = map (\<lambda>i. Some (docs ! i)) [])"
    by simp
  then show ?thesis by (rule exI)
next
  case False
  with assms(1) obtain qe des sims where
    qe: "embedQuery embeddings query = Inr qe"
    and des: "embedDocuments embeddings (map pageContent docs) = Inr des"
    and sims: "similarities_from env agent qe 0 des = Inr sims"
    and out: "out = map (\<lambda>sim. array_get docs (index sim)) (select_sims agent sims)"
    by (rule rerankDocs_Inr)
  from similarities_from_props [OF sims] have idx: "map index sims = [0..<length des]"
    by simp
  let ?sel = "select_sims agent sims"
  let ?idxs = "map index ?sel"
  have below: "\<forall>i\<in>set ?idxs. i < length des"
  proof
    fix i assume "i \<in> set ?idxs"
    then obtain s where s: "s \<in> set ?sel" and i: "i = index s" by auto
    from select_sims_subset [OF s] have "s \<in> set sims" by simp
    from sim_at_index [OF idx this] show "i < length des" using i by simp
  qed
  have "distinct (map index sims)" unfolding idx by simp
  then have dist: "distinct ?idxs" by (rule select_sims_distinct)
  have shape: "out = map (array_get docs) ?idxs"
    unfolding out by simp
  have vectors: "\<forall>des'. embedDocuments embeddings (map pageContent docs) = Inr des'
              \<longrightarrow> (\<forall>i\<in>set ?idxs. i < length des')"
    using des below by simp
  have inputs: "(\<forall>i\<in>set ?idxs. i < length docs) \<longrightarrow> out = map (\<lambda>i. Some (docs ! i)) ?idxs"
    unfolding shape by (simp add: array_get_def)
  have contract: "(\<forall>des'. embedDocuments embeddings (map pageContent docs) = Inr des'
               \<longrightarrow> length des' \<le> length docs)
              \<longrightarrow> (\<forall>i\<in>set ?idxs. i < length docs) \<and> out = map (\<lambda>i. Some (docs ! i)) ?idxs"
  proof
    assume "\<forall>des'. embedDocuments embeddings (map pageContent docs) = Inr des'
               \<longrightarrow> length des' \<le> length docs"
    then have "length des \<le> length docs" using des by blast
    with below have "\<forall>i\<in>set ?idxs. i < length docs" by fastforce
    with inputs show "(\<forall>i\<in>set ?idxs. i < length docs) \<and> out = map (\<lambda>i. Some (docs ! i)) ?idxs"
      by blast
  qed
  from dist shape vectors inputs contract show ?thesis by blast
qed

theorem rerankDocs_selects_distinct_inputs_witness:
  "rerankDocs stub_env (dot_agent 0.3 2) ''q'' [chunk ''a'', chunk ''b'', chunk ''c'']
      (stub_embeddings [1] [[0.4], [0.2], [0.8]])
   = (Inr [Some (chunk ''c''), Some (chunk ''a'')],
      [EmbedQueryCall ''q'', EmbedDocumentsCall [''a'', ''b'', ''c'']])
   \<and> embedDocuments (stub_embeddings [1] [[0.4], [0.2], [0.8]])
         (map pageContent [chunk ''a'', chunk ''b'', chunk ''c'']) = Inr [[0.4], [0.2], [0.8]]
   \<and> length [[0.4], [0.2], [0.8::real]] \<le> length [chunk ''a'', chunk ''b'', chunk ''c'']
   \<and> (\<exists>idxs. distinct idxs
         \<and> [Some (chunk ''c''), Some (chunk ''a'')]
             = map (array_get [chunk ''a'', chunk ''b'', chunk ''c'']) idxs
         \<and> list_all (\<lambda>i. i < length [[0.4], [0.2], [0.8::real]]) idxs
         \<and> list_all (\<lambda>i. i < length [chunk ''a'', chunk ''b'', chunk ''c'']) idxs
         \<and> [Some (chunk ''c''), Some (chunk ''a'')]
             = map (\<lambda>i. Some ([chunk ''a'', chunk ''b'', chunk ''c''] ! i)) idxs)"
proof -
  have run: "rerankDocs stub_env (dot_agent 0.3 2) ''q'' [chunk ''a'', chunk ''b'', chunk ''c'']
      (stub_embeddings [1] [[0.4], [0.2], [0.8]])
   = (Inr [Some (chunk ''c''), Some (chunk ''a'')],
      [EmbedQueryCall ''q'', EmbedDocumentsCall [''a'', ''b'', ''c'']])"
    by (simp add: rerank_run)
  have emb: "embedDocuments (stub_embeddings [1] [[0.4], [0.2], [0.8]])
         (map pageContent [chunk ''a'', chunk ''b'', chunk ''c'']) = Inr [[0.4], [0.2], [0.8]]"
    by (simp add: stub_embeddings_def)
  have len: "length [[0.4], [0.2], [0.8::real]] \<le> length [chunk ''a'', chunk ''b'', chunk ''c'']"
    by simp
  have contract: "\<forall>des. embedDocuments (stub_embeddings [1] [[0.4], [0.2], [0.8]])
                (map pageContent [chunk ''a'', chunk ''b'', chunk ''c'']) = Inr des
           \<longrightarrow> length des \<le> length [chunk ''a'', chunk ''b'', chunk ''c'']"
    by (auto simp: stub_embeddings_def)
  from rerankDocs_selects_distinct_inputs [OF run]
  obtain idxs where body: "distinct idxs \<and>
      [Some (chunk ''c''), Some (chunk ''a'')] = map (array_get [chunk ''a'', chunk ''b'', chunk ''c'']) idxs \<and>
      (\<forall>des. embedDocuments (stub_embeddings [1] [[0.4], [0.2], [0.8]])
                (map pageContent [chunk ''a'', chunk ''b'', chunk ''c'']) = Inr des
              \<longrightarrow> (\<forall>i\<in>set idxs. i < length des)) \<and>
      ((\<forall>i\<in>set idxs. i < length [chunk ''a'', chunk ''b'', chunk ''c''])
         \<longrightarrow> [Some (chunk ''c''), Some (chunk ''a'')]
              = map (\<lambda>i. Some ([chunk ''a'', chunk ''b'', chunk ''c''] ! i)) idxs) \<and>
      ((\<forall>des. embedDocuments (stub_embeddings [1] [[0.4], [0.2], [0.8]])
                (map pageContent [chunk ''a'', chunk ''b'', chunk ''c'']) = Inr des
               \<longrightarrow> length des \<le> length [chunk ''a'', chunk ''b'', chunk ''c''])
         \<longrightarrow> (\<forall>i\<in>set idxs. i < length [chunk ''a'', chunk ''b'', chunk ''c''])
           \<and> [Some (chunk ''c''), Some (chunk ''a'')]
               = map (\<lambda>i. Some ([chunk ''a'', chunk ''b'', chunk ''c''] ! i)) idxs)" ..
  note d = body [THEN conjunct1]
  note shape = body [THEN conjunct2, THEN conjunct1]
  note vectors = body [THEN conjunct2, THEN conjunct2, THEN conjunct1]
  note inputs = body [THEN conjunct2, THEN conjunct2, THEN conjunct2, THEN conjunct2]
  from vectors [rule_format, OF emb]
  have v: "list_all (\<lambda>i. i < length [[0.4], [0.2], [0.8::real]]) idxs"
    unfolding list_all_iff by (rule ballI)
  note both = inputs [THEN mp, OF contract]
  from both [THEN conjunct1]
  have i: "list_all (\<lambda>i. i < length [chunk ''a'', chunk ''b'', chunk ''c'']) idxs"
    unfolding list_all_iff .
  note s = both [THEN conjunct2]
  from d shape v i s have "\<exists>idxs. distinct idxs
         \<and> [Some (chunk ''c''), Some (chunk ''a'')]
             = map (array_get [chunk ''a'', chunk ''b'', chunk ''c'']) idxs
         \<and> list_all (\<lambda>i. i < length [[0.4], [0.2], [0.8::real]]) idxs
         \<and> list_all (\<lambda>i. i < length [chunk ''a'', chunk ''b'', chunk ''c'']) idxs
         \<and> [Some (chunk ''c''), Some (chunk ''a'')]
             = map (\<lambda>i. Some ([chunk ''a'', chunk ''b'', chunk ''c''] ! i)) idxs"
    by (intro exI [of _ idxs] conjI)
  with run emb len show ?thesis by (intro conjI)
qed

text \<open>
  C5. For every query, embedding model and configuration, \<open>rerankDocs\<close> on the empty
  document list returns the empty list, and the run contains no call of \<open>embedQuery\<close> or
  \<open>embedDocuments\<close>: its event list is empty.
\<close>

theorem rerankDocs_empty:
  "rerankDocs env agent query [] embeddings = (Inr [], [])"
  by (simp add: rerankDocs_def)

section \<open>Properties of the page fetcher\<close>

lemma fst_url_task:
  "fst (url_task env u) = (case process_url env u of Inl err \<Rightarrow> [] | Inr ds \<Rightarrow> ds)"
  by (simp add: url_task_def split: sum.splits)

lemma mset_concat_map_cong:
  assumes "mset xs = mset ys"
  shows "mset (concat (map f xs)) = mset (concat (map f ys))"
proof -
  have "mset (concat (map f zs)) = (\<Sum>z\<in>#mset zs. mset (f z))" for zs
    by (induction zs) simp_all
  then show ?thesis using assms by simp
qed

lemma order_in_range:
  assumes "mset order = mset [0..<n]"
  shows "filter (\<lambda>i. i < n) order = order"
proof -
  have "set order = set [0..<n]" using assms by (rule mset_eq_setD)
  then show ?thesis by (auto intro: filter_True)
qed

lemma getDocumentsFromUrls_mset:
  assumes "mset order = mset [0..<length urls]"
  shows "mset (fst (getDocumentsFromUrls env order urls))
     = mset (concat (map (\<lambda>u. case process_url env u of Inl err \<Rightarrow> [] | Inr ds \<Rightarrow> ds) urls))"
proof -
  let ?f = "\<lambda>u. case process_url env u of Inl err \<Rightarrow> [] | Inr ds \<Rightarrow> ds"
  have "fst (getDocumentsFromUrls env order urls) = concat (map (\<lambda>i. ?f (urls ! i)) order)"
    by (simp add: getDocumentsFromUrls_def Let_def order_in_range [OF assms] fst_url_task comp_def)
  then have "mset (fst (getDocumentsFromUrls env order urls))
      = mset (concat (map (\<lambda>i. ?f (urls ! i)) [0..<length urls]))"
    using mset_concat_map_cong [OF assms] by simp
  also have "map (\<lambda>i. ?f (urls ! i)) [0..<length urls] = map ?f urls"
    by (rule nth_equalityI) simp_all
  finally show ?thesis .
qed

lemma two_orders:
  assumes "mset order = mset [0, Suc 0]"
  shows "order = [0, Suc 0] \<or> order = [Suc 0, 0]"
proof -
  have len: "length order = 2" using mset_eq_length [OF assms] by simp
  then obtain a b where ab: "order = [a, b]"
    by (cases order; cases "tl order") auto
  have "a \<in># mset [0, Suc 0]" "b \<in># mset [0, Suc 0]"
    unfolding assms [symmetric] ab by simp_all
  then have a: "a = 0 \<or> a = Suc 0" and b: "b = 0 \<or> b = Suc 0" by auto
  have "distinct order" using mset_eq_imp_distinct_iff [OF assms] by simp
  then have "a \<noteq> b" unfolding ab by simp
  with a b show ?thesis unfolding ab by blast
qed

text \<open>What counts as a failed URL: the GET, the extraction or the chunking throws.\<close>

lemma process_url_failures:
  "(axios_get env u = Inl err \<longrightarrow> process_url env u = Inl err) \<and>
   (axios_get env u = Inr (TextData html) \<and> htmlToText env html = Inl err
      \<longrightarrow> process_url env u = Inl err) \<and>
   (axios_get env u = Inr (TextData html) \<and> htmlToText env html = Inr text
      \<and> splitText env (normalize_text text) = Inl err \<longrightarrow> process_url env u = Inl err)"
  by (simp add: process_url_def)

text \<open>
  C2. For every list of URLs and every order in which the tasks finish,
  \<open>getDocumentsFromUrls\<close> returns (it has no error result), and its documents are, up to
  that order, exactly the documents of the URLs whose processing succeeded; a URL whose
  processing failed contributes none. In particular, with two URLs of which the first
  yields three chunks and the second fails, the result is exactly those three chunks,
  and the failure is logged.
\<close>

theorem getDocumentsFromUrls_isolates_failures:
  assumes "mset order = mset [0..<length urls]"
  shows "mset (fst (getDocumentsFromUrls env order urls))
       = mset (concat (map (\<lambda>u. case process_url env u of Inl err \<Rightarrow> [] | Inr ds \<Rightarrow> ds) urls))
     \<and> (\<forall>u1 u2 d1 d2 d3 err.
          urls = [u1, u2] \<and> process_url env u1 = Inr [d1, d2, d3] \<and> process_url env u2 = Inl err
          \<longrightarrow> getDocumentsFromUrls env order urls
                = ([d1, d2, d3], [ConsoleError (''Error processing '' @ u2 @ '':'') err]))"
proof (intro conjI allI impI)
  show "mset (fst (getDocumentsFromUrls env order urls))
       = mset (concat (map (\<lambda>u. case process_url env u of Inl err \<Rightarrow> [] | Inr ds \<Rightarrow> ds) urls))"
    using assms by (rule getDocumentsFromUrls_mset)
next
  fix u1 u2 d1 d2 d3 err
  assume a: "urls = [u1, u2] \<and> process_url env u1 = Inr [d1, d2, d3] \<and> process_url env u2 = Inl err"
  then have urls: "urls = [u1, u2]" and p1: "process_url env u1 = Inr [d1, d2, d3]"
    and p2: "process_url env u2 = Inl err" by simp_all
  have t1: "url_task env u1 = ([d1, d2, d3], [])"
    by (simp add: url_task_def p1)
  have t2: "url_task env u2 = ([], [ConsoleError (''Error processing '' @ u2 @ '':'') err])"
    by (simp add: url_task_def p2)
  have "[0..<length urls] = [0, Suc 0]" unfolding urls by (simp add: upt_rec)
  then have "mset order = mset [0, Suc 0]" using assms by simp
  then have "order = [0, Suc 0] \<or> order = [Suc 0, 0]" by (rule two_orders)
  then show "getDocumentsFromUrls env order urls
                = ([d1, d2, d3], [ConsoleError (''Error processing '' @ u2 @ '':'') err])"
  proof
    assume "order = [0, Suc 0]"
    then show ?thesis by (simp add: getDocumentsFromUrls_def urls t1 t2)
  next
    assume "order = [Suc 0, 0]"
    then show ?thesis by (simp add: getDocumentsFromUrls_def urls t1 t2)
  qed
qed

text \<open>The unreachable page finishes first; the three chunks of the other page are the result.\<close>

theorem getDocumentsFromUrls_isolates_failures_witness:
  "mset [1, 0] = mset [0..<length [''https://x.test/a'', ''https://x.test/down'']]
   \<and> process_url stub_env ''https://x.test/a''
       = Inr [page_a_chunk ''<html>'', page_a_chunk ''<body>'', page_a_chunk ''No title here</body></html>'']
   \<and> process_url stub_env ''https://x.test/down'' = Inl (Failure ''ECONNREFUSED'')
   \<and> getDocumentsFromUrls stub_env [1, 0] [''https://x.test/a'', ''https://x.test/down'']
       = ([page_a_chunk ''<html>'', page_a_chunk ''<body>'', page_a_chunk ''No title here</body></html>''],
          [ConsoleError ''Error processing https://x.test/down:'' (Failure ''ECONNREFUSED'')])"
proof -
  have perm: "mset [1, 0] = mset [0..<length [''https://x.test/a'', ''https://x.test/down'']]"
    by (simp add: upt_rec)
  have pa: "process_url stub_env ''https://x.test/a''
     = Inr [page_a_chunk ''<html>'', page_a_chunk ''<body>'', page_a_chunk ''No title here</body></html>'']"
    by (simp add: fetch_run page_a_chunk_def)
  have pd: "process_url stub_env ''https://x.test/down'' = Inl (Failure ''ECONNREFUSED'')"
    by (simp add: fetch_run)
  from getDocumentsFromUrls_isolates_failures [OF perm, of stub_env] pa pd
  have "getDocumentsFromUrls stub_env [1, 0] [''https://x.test/a'', ''https://x.test/down'']
       = ([page_a_chunk ''<html>'', page_a_chunk ''<body>'', page_a_chunk ''No title here</body></html>''],
          [ConsoleError (''Error processing '' @ ''https://x.test/down'' @ '':'') (Failure ''ECONNREFUSED'')])"
    by blast
  then show ?thesis using perm pa pd by simp
qed

section \<open>Properties of the title extraction\<close>














text \<open>
  With two \<open>title\<close> elements on one line the greedy \<open>.*\<close> runs to the last \<open>>\<close> that
  still leaves a closing tag, and the title is the content of the last element.
\<close>

lemma page_title_two_titles:
  "page_title ''<title>A</title><title>B</title>'' ''https://x.test/a'' = ''B''"
  by (simp add: page_title_def is_line_terminator_def)



text \<open>A title tag with an attribute, on its own.\<close>

lemma page_title_attribute:
  "page_title ''<title lang=en>T</title>'' ''https://x.test/a'' = ''T''"
  by (simp add: page_title_def is_line_terminator_def)

section \<open>Properties of the web search\<close>

text \<open>
  C6. When building the request URL throws, when the GET fails, or when the response
  carries no body to read \<open>results\<close> from, \<open>searchWeb\<close> returns the empty sequence and logs
  the error; its result type has no error, so nothing propagates to the caller.
\<close>

theorem searchWeb_absorbs_errors:
  "(URL_href env (search_endpoint env) (search_params query) = Inl err
      \<longrightarrow> searchWeb env query = (Some [], [ConsoleError ''Search error:'' err])) \<and>
   (\<forall>href. URL_href env (search_endpoint env) (search_params query) = Inr href
        \<and> axios_get env href = Inl err
      \<longrightarrow> searchWeb env query = (Some [], [ConsoleError ''Search error:'' err])) \<and>
   (\<forall>href. URL_href env (search_endpoint env) (search_params query) = Inr href
        \<and> axios_get env href = Inr NullData
      \<longrightarrow> searchWeb env query = (Some [], [ConsoleError ''Search error:'' TypeError]))"
  by (simp add: searchWeb_def search_request_def)

theorem searchWeb_absorbs_errors_witness:
  "URL_href (stub_env\<lparr>SEARXNG_URL := None\<rparr>) (search_endpoint (stub_env\<lparr>SEARXNG_URL := None\<rparr>))
       (search_params ''cats'') = Inl TypeError
   \<and> searchWeb (stub_env\<lparr>SEARXNG_URL := None\<rparr>) ''cats''
       = (Some [], [ConsoleError ''Search error:'' TypeError])
   \<and> URL_href stub_env (search_endpoint stub_env) (search_params ''dogs'')
       = Inr ''https://searx.test/search?q=dogs''
   \<and> axios_get stub_env ''https://searx.test/search?q=dogs'' = Inl (Failure ''ECONNREFUSED'')
   \<and> searchWeb stub_env ''dogs'' = (Some [], [ConsoleError ''Search error:'' (Failure ''ECONNREFUSED'')])
   \<and> URL_href stub_env (search_endpoint stub_env) (search_params ''null'')
       = Inr ''https://searx.test/search?q=null''
   \<and> axios_get stub_env ''https://searx.test/search?q=null'' = Inr NullData
   \<and> searchWeb stub_env ''null'' = (Some [], [ConsoleError ''Search error:'' TypeError])"
proof -
  have u0: "URL_href (stub_env\<lparr>SEARXNG_URL := None\<rparr>) (search_endpoint (stub_env\<lparr>SEARXNG_URL := None\<rparr>))
       (search_params ''cats'') = Inl TypeError"
    by (simp add: search_run)
  have u1: "URL_href stub_env (search_endpoint stub_env) (search_params ''dogs'')
       = Inr ''https://searx.test/search?q=dogs''"
    by (simp add: search_run)
  have g1: "axios_get stub_env ''https://searx.test/search?q=dogs'' = Inl (Failure ''ECONNREFUSED'')"
    by (simp add: search_run)
  have u2: "URL_href stub_env (search_endpoint stub_env) (search_params ''null'')
       = Inr ''https://searx.test/search?q=null''"
    by (simp add: search_run)
  have g2: "axios_get stub_env ''https://searx.test/search?q=null'' = Inr NullData"
    by (simp add: search_run)
  from searchWeb_absorbs_errors [of "stub_env\<lparr>SEARXNG_URL := None\<rparr>" "''cats''" TypeError] u0
  have r0: "searchWeb (stub_env\<lparr>SEARXNG_URL := None\<rparr>) ''cats''
       = (Some [], [ConsoleError ''Search error:'' TypeError])"
    by blast
  from searchWeb_absorbs_errors [of stub_env "''dogs''" "Failure ''ECONNREFUSED''"] u1 g1
  have r1: "searchWeb stub_env ''dogs'' = (Some [], [ConsoleError ''Search error:'' (Failure ''ECONNREFUSED'')])"
    by blast
  from searchWeb_absorbs_errors [of stub_env "''null''" TypeError] u2 g2
  have r2: "searchWeb stub_env ''null'' = (Some [], [ConsoleError ''Search error:'' TypeError])"
    by blast
  from u0 r0 u1 g1 r1 u2 g2 r2 show ?thesis by blast
qed

text \<open>
  C10. When the endpoint answers with a JSON object that has no \<open>results\<close> field,
  \<open>searchWeb\<close> returns \<open>undefined\<close> and logs nothing, the mapping over the results in the
  pipeline throws a \<open>TypeError\<close>, and \<open>search\<close> fails with it after the rephrasing call.
\<close>

theorem missing_results_reach_map:
  assumes "URL_href env (search_endpoint env) (search_params searchQuery) = Inr href"
    and "axios_get env href = Inr (JsonData body)"
    and "results body = None"
  shows "searchWeb env searchQuery = (None, []) \<and>
     retrieve env agent embeddings order searchQuery = (Inl TypeError, []) \<and>
     (invoke llm (TextPrompt (rephrase_prompt query)) = Inr searchQuery \<longrightarrow>
        search env agent order query llm embeddings history
          = (Inl TypeError, [LlmCall (TextPrompt (rephrase_prompt query))]))"
proof -
  have sw: "searchWeb env searchQuery = (None, [])"
    using assms by (simp add: searchWeb_def search_request_def)
  then have rt: "retrieve env agent embeddings order searchQuery = (Inl TypeError, [])"
    by (simp add: retrieve_def)
  then have "invoke llm (TextPrompt (rephrase_prompt query)) = Inr searchQuery \<longrightarrow>
        search env agent order query llm embeddings history
          = (Inl TypeError, [LlmCall (TextPrompt (rephrase_prompt query))])"
    by (simp add: search_def Let_def)
  with sw rt show ?thesis by blast
qed

theorem missing_results_reach_map_witness:
  "URL_href stub_env (search_endpoint stub_env) (search_params ''empty'')
       = Inr ''https://searx.test/search?q=empty''
   \<and> axios_get stub_env ''https://searx.test/search?q=empty'' = Inr (JsonData \<lparr>results = None\<rparr>)
   \<and> results \<lparr>results = None\<rparr> = None
   \<and> searchWeb stub_env ''empty'' = (None, [])
   \<and> retrieve stub_env (dot_agent 0.3 2) (stub_embeddings [1] [[1]]) [0] ''empty'' = (Inl TypeError, [])"
proof -
  have u: "URL_href stub_env (search_endpoint stub_env) (search_params ''empty'')
       = Inr ''https://searx.test/search?q=empty''"
    by (simp add: search_run)
  have g: "axios_get stub_env ''https://searx.test/search?q=empty'' = Inr (JsonData \<lparr>results = None\<rparr>)"
    by (simp add: search_run)
  have r: "results \<lparr>results = None\<rparr> = None" by simp
  from missing_results_reach_map [OF u g r] u g r show ?thesis by blast
qed

section \<open>Properties of the pipeline\<close>

lemma render_docs_defined:
  "render_docs i (map Some ds)
     = Inr (map (\<lambda>d. ''['' @ decimal (i + fst d + 1) @ ''] '' @ title (metadata (snd d))
                      @ [CHR 0x0A] @ pageContent (snd d))
             (enumerate 0 ds))"
proof (induction ds arbitrary: i)
  case Nil
  show ?case by simp
next
  case (Cons d ds)
  have "enumerate 0 (d # ds) = (0, d) # map (\<lambda>p. (Suc (fst p), snd p)) (enumerate 0 ds)"
    by (auto simp: enumerate_Suc_eq apfst_def map_prod_def split: prod.splits)
  then show ?case
    by (simp add: Cons.IH [of "Suc i"] comp_def)
qed

lemma join_Cons: "join sep (x # xs) = x @ concat (map (\<lambda>y. sep @ y) xs)"
  by (induction xs arbitrary: x) simp_all

lemma join_enumerate:
  "join sep (map f (enumerate 0 ds))
     = concat (map (\<lambda>p. (if fst p = 0 then [] else sep) @ f p) (enumerate 0 ds))"
proof (cases ds)
  case Nil
  then show ?thesis by simp
next
  case (Cons d rest)
  let ?g = "\<lambda>p. (if fst p = 0 then [] else sep) @ f p"
  have "\<forall>p\<in>set (enumerate (Suc 0) rest). fst p \<noteq> 0"
    by (auto simp: in_set_enumerate_eq)
  then have eq: "map ?g (enumerate (Suc 0) rest) = map (\<lambda>p. sep @ f p) (enumerate (Suc 0) rest)"
    by (intro map_cong) auto
  have "join sep (map f (enumerate 0 (d # rest)))
      = f (0, d) @ concat (map (\<lambda>p. sep @ f p) (enumerate (Suc 0) rest))"
    by (simp add: join_Cons comp_def)
  moreover have "concat (map ?g (enumerate 0 (d # rest)))
      = f (0, d) @ concat (map ?g (enumerate (Suc 0) rest))"
    by simp
  ultimately show ?thesis
    unfolding Cons eq by (rule trans [OF _ sym])
qed

text \<open>
  C7. When the retrieval stage returns the documents \<open>ds\<close>, the context is the
  concatenation, in that order, of \<open>[k + 1] title\<close>, a newline and the content of the
  \<open>k\<close>-th document, each but the first preceded by two newlines; \<open>search\<close> passes it to
  the language model as the last message of the answer prompt, after \<open>Context:\<close> and a
  newline.
\<close>

theorem context_passed_to_synthesis:
  assumes "invoke llm (TextPrompt (rephrase_prompt query)) = Inr searchQuery"
    and "retrieve env agent embeddings order searchQuery = (Inr (map Some ds), ev)"
    and "context = concat (map (\<lambda>p. (if fst p = 0 then [] else [CHR 0x0A, CHR 0x0A])
                      @ ''['' @ decimal (fst p + 1) @ ''] '' @ title (metadata (snd p))
                      @ [CHR 0x0A] @ pageContent (snd p))
                   (enumerate 0 ds))"
  shows "build_context (map Some ds) = Inr context \<and>
     search env agent order query llm embeddings history
       = (invoke llm (ChatPrompt (answer_prompt query context history)),
          LlmCall (TextPrompt (rephrase_prompt query)) # ev
            @ [LlmCall (ChatPrompt (answer_prompt query context history))]) \<and>
     last (answer_prompt query context history) = (System, ''Context:'' @ [CHR 0x0A] @ context)"
proof -
  have ctx: "build_context (map Some ds) = Inr context"
    unfolding build_context_def render_docs_defined assms(3)
    by (simp add: join_enumerate)
  have "search env agent order query llm embeddings history
       = (invoke llm (ChatPrompt (answer_prompt query context history)),
          LlmCall (TextPrompt (rephrase_prompt query)) # ev
            @ [LlmCall (ChatPrompt (answer_prompt query context history))])"
    by (simp add: search_def Let_def assms(1,2) ctx)
  moreover have "last (answer_prompt query context history) = (System, ''Context:'' @ [CHR 0x0A] @ context)"
    by (simp add: answer_prompt_def)
  ultimately show ?thesis using ctx by blast
qed

text \<open>A run on the test doubles: two chunks survive, the better one second in the input.\<close>

theorem context_passed_to_synthesis_witness:
  "invoke stub_llm (TextPrompt (rephrase_prompt ''felines'')) = Inr ''cats''
   \<and> retrieve stub_env (dot_agent 0.3 2) (stub_embeddings [1] [[0.5], [0.9], [0.1]]) [0, 1] ''cats''
       = (Inr (map Some [page_a_chunk ''<body>'', page_a_chunk ''<html>'']),
          [ConsoleError ''Error processing https://x.test/down:'' (Failure ''ECONNREFUSED''),
           EmbedQueryCall ''cats'',
           EmbedDocumentsCall [''<html>'', ''<body>'', ''No title here</body></html>'']])
   \<and> build_context (map Some [page_a_chunk ''<body>'', page_a_chunk ''<html>''])
       = Inr (''[1] https://x.test/a'' @ [CHR 0x0A] @ ''<body>'' @ [CHR 0x0A, CHR 0x0A]
              @ ''[2] https://x.test/a'' @ [CHR 0x0A] @ ''<html>'')
   \<and> fst (search stub_env (dot_agent 0.3 2) [0, 1] ''felines'' stub_llm
             (stub_embeddings [1] [[0.5], [0.9], [0.1]]) [])
       = Inr (''Context:'' @ [CHR 0x0A] @ ''[1] https://x.test/a'' @ [CHR 0x0A] @ ''<body>''
              @ [CHR 0x0A, CHR 0x0A] @ ''[2] https://x.test/a'' @ [CHR 0x0A] @ ''<html>'')"
proof -
  have ask: "invoke stub_llm (TextPrompt (rephrase_prompt ''felines'')) = Inr ''cats''"
    by (simp add: stub_llm_def)
  have got: "retrieve stub_env (dot_agent 0.3 2) (stub_embeddings [1] [[0.5], [0.9], [0.1]]) [0, 1] ''cats''
       = (Inr (map Some [page_a_chunk ''<body>'', page_a_chunk ''<html>'']),
          [ConsoleError ''Error processing https://x.test/down:'' (Failure ''ECONNREFUSED''),
           EmbedQueryCall ''cats'',
           EmbedDocumentsCall [''<html>'', ''<body>'', ''No title here</body></html>'']])"
    by (simp add: retrieve_def search_run fetch_run rerank_run page_a_chunk_def)
  note inst = context_passed_to_synthesis [OF ask got refl, of "[]"]
  from inst have ctx: "build_context (map Some [page_a_chunk ''<body>'', page_a_chunk ''<html>''])
       = Inr (''[1] https://x.test/a'' @ [CHR 0x0A] @ ''<body>'' @ [CHR 0x0A, CHR 0x0A]
              @ ''[2] https://x.test/a'' @ [CHR 0x0A] @ ''<html>'')"
    by (simp add: page_a_chunk_def decimal.simps)
  from inst have "fst (search stub_env (dot_agent 0.3 2) [0, 1] ''felines'' stub_llm
             (stub_embeddings [1] [[0.5], [0.9], [0.1]]) [])
       = Inr (''Context:'' @ [CHR 0x0A] @ ''[1] https://x.test/a'' @ [CHR 0x0A] @ ''<body>''
              @ [CHR 0x0A, CHR 0x0A] @ ''[2] https://x.test/a'' @ [CHR 0x0A] @ ''<html>'')"
    by (simp add: page_a_chunk_def decimal.simps stub_llm_def answer_prompt_def)
  with ask got ctx show ?thesis by blast
qed

section \<open>Properties of the configuration\<close>

lemma call_keeps_agent: "fst (call env agent c) = agent"
  by (cases c) (simp_all split: prod.splits)

lemma after_calls_keeps_agent: "after_calls env agent cs = agent"
  by (induction cs arbitrary: agent) (simp_all add: call_keeps_agent)

text \<open>
  C8. A key the caller did not supply takes its default (cosine, 0.3, 15), a key the
  caller supplied takes the supplied value, and after any sequence of method calls the
  agent's configuration is the one the constructor built.
\<close>

theorem config_defaults_and_never_mutated:
  "(given_similarityMeasure given = None
      \<longrightarrow> similarityMeasure (config (new_SearchAgent given)) = Some Cosine) \<and>
   (given_rerankThreshold given = None
      \<longrightarrow> rerankThreshold (config (new_SearchAgent given)) = Some (Num 0.3)) \<and>
   (given_maxResults given = None
      \<longrightarrow> maxResults (config (new_SearchAgent given)) = Some (Num 15)) \<and>
   (\<forall>v. given_similarityMeasure given = Some v
      \<longrightarrow> similarityMeasure (config (new_SearchAgent given)) = v) \<and>
   (\<forall>v. given_rerankThreshold given = Some v
      \<longrightarrow> rerankThreshold (config (new_SearchAgent given)) = v) \<and>
   (\<forall>v. given_maxResults given = Some v
      \<longrightarrow> maxResults (config (new_SearchAgent given)) = v) \<and>
   config (after_calls env (new_SearchAgent given) calls) = config (new_SearchAgent given)"
  by (simp add: new_SearchAgent_def spread_key_def defaultConfig_def after_calls_keeps_agent)

theorem config_defaults_and_never_mutated_witness:
  "given_similarityMeasure empty_config = None
   \<and> given_rerankThreshold empty_config = None
   \<and> given_maxResults empty_config = None
   \<and> config (new_SearchAgent empty_config)
       = \<lparr>similarityMeasure = Some Cosine, rerankThreshold = Some (Num 0.3), maxResults = Some (Num 15)\<rparr>
   \<and> given_maxResults (empty_config\<lparr>given_maxResults := Some (Some (Num 10))\<rparr>) = Some (Some (Num 10))
   \<and> maxResults (config (new_SearchAgent (empty_config\<lparr>given_maxResults := Some (Some (Num 10))\<rparr>)))
       = Some (Num 10)
   \<and> config (after_calls stub_env (new_SearchAgent empty_config)
        [CallSearchWeb ''dogs'', CallComputeSimilarity [1] [1]])
       = \<lparr>similarityMeasure = Some Cosine, rerankThreshold = Some (Num 0.3), maxResults = Some (Num 15)\<rparr>"
proof -
  have e: "given_similarityMeasure empty_config = None" "given_rerankThreshold empty_config = None"
    "given_maxResults empty_config = None"
    by (simp_all add: empty_config_def)
  have g: "given_maxResults (empty_config\<lparr>given_maxResults := Some (Some (Num 10))\<rparr>) = Some (Some (Num 10))"
    by simp
  note d = config_defaults_and_never_mutated [of empty_config stub_env
      "[CallSearchWeb ''dogs'', CallComputeSimilarity [1] [1]]"]
  from d e have fields: "similarityMeasure (config (new_SearchAgent empty_config)) = Some Cosine"
    "rerankThreshold (config (new_SearchAgent empty_config)) = Some (Num 0.3)"
    "maxResults (config (new_SearchAgent empty_config)) = Some (Num 15)"
    by blast+
  then have c: "config (new_SearchAgent empty_config)
       = \<lparr>similarityMeasure = Some Cosine, rerankThreshold = Some (Num 0.3), maxResults = Some (Num 15)\<rparr>"
    by (cases "config (new_SearchAgent empty_config)") simp
  from d have k: "config (after_calls stub_env (new_SearchAgent empty_config)
        [CallSearchWeb ''dogs'', CallComputeSimilarity [1] [1]]) = config (new_SearchAgent empty_config)"
    by blast
  from config_defaults_and_never_mutated
    [of "empty_config\<lparr>given_maxResults := Some (Some (Num 10))\<rparr>" stub_env "[]"] g
  have m: "maxResults (config (new_SearchAgent (empty_config\<lparr>given_maxResults := Some (Some (Num 10))\<rparr>)))
       = Some (Num 10)"
    by blast
  from e c g m k show ?thesis by simp
qed

end
